theory Spec2Isabelle
  imports Main "HOL-Library.Word"
begin

section \<open>Python bindings to the Cold Clear bot: data model\<close>

text \<open>
  The module \<^verbatim>\<open>src/__init__.py\<close> is a \<^verbatim>\<open>ctypes\<close> binding. The model keeps its
  structure: the \<^verbatim>\<open>IntEnum\<close> classes are datatypes with their value functions, the
  \<^verbatim>\<open>ctypes.Structure\<close> classes are records together with their \<^verbatim>\<open>_fields_\<close> lists,
  and the foreign functions of the dynamic library are parameters.
\<close>

subsection \<open>Exceptions and outcomes\<close>

datatype py_error = ValueError | IndexError | OSError | AttributeError

text \<open>
  A call returns a value, raises, or (a foreign call only) never returns.
\<close>

datatype 'a outcome = Returns 'a | Raises py_error | Never_returns

subsection \<open>The enumerations (lines 28--58)\<close>

datatype CCPiece = Piece_I | Piece_T | Piece_O | Piece_S | Piece_Z | Piece_L | Piece_J

fun CCPiece_value :: "CCPiece \<Rightarrow> int" where
  "CCPiece_value Piece_I = 0"
| "CCPiece_value Piece_T = 1"
| "CCPiece_value Piece_O = 2"
| "CCPiece_value Piece_S = 3"
| "CCPiece_value Piece_Z = 4"
| "CCPiece_value Piece_L = 5"
| "CCPiece_value Piece_J = 6"

datatype CCTspinStatus = NONE | MINI | FULL

fun CCTspinStatus_value :: "CCTspinStatus \<Rightarrow> int" where
  "CCTspinStatus_value NONE = 0"
| "CCTspinStatus_value MINI = 1"
| "CCTspinStatus_value FULL = 2"

datatype CCMovement = LEFT | RIGHT | CW | CCW | DROP

fun CCMovement_value :: "CCMovement \<Rightarrow> int" where
  "CCMovement_value LEFT = 0"
| "CCMovement_value RIGHT = 1"
| "CCMovement_value CW = 2"
| "CCMovement_value CCW = 3"
| "CCMovement_value DROP = 4"

datatype CCMovementMode = ZERO_G | TWENTY_G | HARD_DROP_ONLY

fun CCMovementMode_value :: "CCMovementMode \<Rightarrow> int" where
  "CCMovementMode_value ZERO_G = 0"
| "CCMovementMode_value TWENTY_G = 1"
| "CCMovementMode_value HARD_DROP_ONLY = 2"

datatype CCBotPollStatus = MOVE_PROVIDED | WAITING | DEAD

fun CCBotPollStatus_value :: "CCBotPollStatus \<Rightarrow> int" where
  "CCBotPollStatus_value MOVE_PROVIDED = 0"
| "CCBotPollStatus_value WAITING = 1"
| "CCBotPollStatus_value DEAD = 2"

subsection \<open>C types and structure declarations (lines 60--115)\<close>

datatype ctype = c_bool | c_int | c_uint8 | c_uint32 | c_int32 | c_array ctype nat

text \<open>
  Values of the C integer types. \<^verbatim>\<open>c_int\<close> is taken as 32 bits wide, as on every
  platform the library is built for; reading it in Python gives the signed value.
\<close>

type_synonym c_uint8_val = "8 word"
type_synonym c_uint32_val = "32 word"
type_synonym c_int32_val = "32 word"
type_synonym c_int_val = "32 word"

definition CCPlanPlacement_fields :: "(string \<times> ctype) list" where
  "CCPlanPlacement_fields =
     [(''piece'', c_int),
      (''tspin'', c_int),
      (''expected_x'', c_array c_uint8 4),
      (''expected_y'', c_array c_uint8 4),
      (''cleared_lines'', c_array c_int32 4)]"

record CCPlanPlacement =
  piece :: c_int_val
  tspin :: c_int_val
  pp_expected_x :: "c_uint8_val list"
  pp_expected_y :: "c_uint8_val list"
  cleared_lines :: "c_int32_val list"

definition CCMove_fields :: "(string \<times> ctype) list" where
  "CCMove_fields =
     [(''hold'', c_bool),
      (''expected_x'', c_array c_uint8 4),
      (''expected_y'', c_array c_uint8 4),
      (''movement_count'', c_uint8),
      (''movements'', c_array c_int 32),
      (''nodes'', c_uint32),
      (''depth'', c_uint32),
      (''original_rank'', c_uint32)]"

record CCMove =
  hold :: bool
  expected_x :: "c_uint8_val list"
  expected_y :: "c_uint8_val list"
  movement_count :: c_uint8_val
  movements :: "c_int_val list"
  nodes :: c_uint32_val
  depth :: c_uint32_val
  original_rank :: c_uint32_val

definition CCOptions_fields :: "(string \<times> ctype) list" where
  "CCOptions_fields =
     [(''mode'', c_int),
      (''use_hold'', c_bool),
      (''speculate'', c_bool),
      (''pcloop'', c_bool),
      (''min_nodes'', c_uint32),
      (''max_nodes'', c_uint32),
      (''threads'', c_uint32)]"

record CCOptions =
  mode :: c_int_val
  use_hold :: bool
  speculate :: bool
  pcloop :: bool
  min_nodes :: c_uint32_val
  max_nodes :: c_uint32_val
  threads :: c_uint32_val

text \<open>
  A \<^verbatim>\<open>ctypes\<close> array has a fixed number of elements; the records hold them as lists,
  and these predicates say that the lists have the declared lengths.
\<close>

definition CCPlanPlacement_wf :: "CCPlanPlacement \<Rightarrow> bool" where
  "CCPlanPlacement_wf p \<longleftrightarrow>
     length (pp_expected_x p) = 4 \<and> length (pp_expected_y p) = 4 \<and> length (cleared_lines p) = 4"

definition CCMove_wf :: "CCMove \<Rightarrow> bool" where
  "CCMove_wf m \<longleftrightarrow>
     length (expected_x m) = 4 \<and> length (expected_y m) = 4 \<and> length (movements m) = 32"

text \<open>\<^verbatim>\<open>CCMove()\<close> and \<^verbatim>\<open>CCPlanPlacement()\<close>: a new structure is zero-filled.\<close>

definition CCMove_new :: CCMove where
  "CCMove_new =
     \<lparr>hold = False, expected_x = replicate 4 0, expected_y = replicate 4 0,
      movement_count = 0, movements = replicate 32 0, nodes = 0, depth = 0, original_rank = 0\<rparr>"

definition CCPlanPlacement_new :: CCPlanPlacement where
  "CCPlanPlacement_new =
     \<lparr>piece = 0, tspin = 0, pp_expected_x = replicate 4 0, pp_expected_y = replicate 4 0,
      cleared_lines = replicate 4 0\<rparr>"

subsection \<open>Array access and generators\<close>

text \<open>
  Reading \<^verbatim>\<open>a[i]\<close> on a \<^verbatim>\<open>ctypes\<close> array with \<^verbatim>\<open>i\<close> from a \<^verbatim>\<open>range\<close> (so never negative)
  raises \<^verbatim>\<open>IndexError\<close> at and beyond the length; so does the assignment \<^verbatim>\<open>a[i] = v\<close>.
\<close>

definition array_get :: "'a list \<Rightarrow> nat \<Rightarrow> py_error + 'a" where
  "array_get xs i = (if i < length xs then Inr (xs ! i) else Inl IndexError)"

definition array_set :: "'a list \<Rightarrow> nat \<Rightarrow> 'a \<Rightarrow> py_error + 'a list" where
  "array_set xs i v = (if i < length xs then Inr (xs[i := v]) else Inl IndexError)"

text \<open>
  A generator \<^verbatim>\<open>for i in range(n): yield body(i)\<close> is run to its end: the values it
  yields, and the exception that stopped it if one did.
\<close>

fun yield_each :: "(nat \<Rightarrow> py_error + 'a) \<Rightarrow> nat list \<Rightarrow> 'a list \<times> py_error option" where
  "yield_each body [] = ([], None)"
| "yield_each body (i # is) =
     (case body i of
        Inl e \<Rightarrow> ([], Some e)
      | Inr v \<Rightarrow> (case yield_each body is of (vs, stop) \<Rightarrow> (v # vs, stop)))"

text \<open>The pair \<^verbatim>\<open>self.expected_x[i], self.expected_y[i]\<close>, evaluated left to right.\<close>

definition expected_cell :: "c_uint8_val list \<Rightarrow> c_uint8_val list \<Rightarrow> nat \<Rightarrow> py_error + (int \<times> int)" where
  "expected_cell xs ys i =
     (case array_get xs i of
        Inl e \<Rightarrow> Inl e
      | Inr x \<Rightarrow> (case array_get ys i of Inl e \<Rightarrow> Inl e | Inr y \<Rightarrow> Inr (uint x, uint y)))"

definition CCPlanPlacement_expected_cells_iter :: "CCPlanPlacement \<Rightarrow> (int \<times> int) list \<times> py_error option" where
  "CCPlanPlacement_expected_cells_iter self =
     yield_each (expected_cell (pp_expected_x self) (pp_expected_y self)) [0..<4]"

definition CCMove_expected_cells_iter :: "CCMove \<Rightarrow> (int \<times> int) list \<times> py_error option" where
  "CCMove_expected_cells_iter self =
     yield_each (expected_cell (expected_x self) (expected_y self)) [0..<4]"

definition movements_iter :: "CCMove \<Rightarrow> int list \<times> py_error option" where
  "movements_iter self =
     yield_each (\<lambda>i. map_sum id sint (array_get (movements self) i))
       [0..<unat (movement_count self)]"

subsection \<open>The weights structure (lines 124--160)\<close>

record CCWeights =
  back_to_back :: c_int32_val
  bumpiness :: c_int32_val
  bumpiness_sq :: c_int32_val
  height :: c_int32_val
  top_half :: c_int32_val
  top_quarter :: c_int32_val
  jeopardy :: c_int32_val
  cavity_cells :: c_int32_val
  cavity_cells_sq :: c_int32_val
  overhang_cells :: c_int32_val
  overhang_cells_sq :: c_int32_val
  covered_cells :: c_int32_val
  covered_cells_sq :: c_int32_val
  tslot :: "c_int32_val list"
  well_depth :: c_int32_val
  max_well_depth :: c_int32_val
  well_column :: "c_int32_val list"
  b2b_clear :: c_int32_val
  clear1 :: c_int32_val
  clear2 :: c_int32_val
  clear3 :: c_int32_val
  clear4 :: c_int32_val
  tspin1 :: c_int32_val
  tspin2 :: c_int32_val
  tspin3 :: c_int32_val
  mini_tspin1 :: c_int32_val
  mini_tspin2 :: c_int32_val
  perfect_clear :: c_int32_val
  combo_garbage :: c_int32_val
  move_time :: c_int32_val
  wasted_t :: c_int32_val
  use_bag :: bool

section \<open>Loading the library (lines 9--26)\<close>

text \<open>
  \<^verbatim>\<open>ctypes.cdll.LoadLibrary(path)\<close> depends on the files of the machine: it is the
  parameter \<open>dlopen\<close>, which gives the names the library at \<open>path\<close> exports, or \<open>None\<close>
  where loading fails with \<^verbatim>\<open>OSError\<close>. The library object records the result type set
  for each of its functions. Looking a function up by a name the library does not export
  raises \<^verbatim>\<open>AttributeError\<close>.
\<close>

datatype restype = Restype_c_void_p | Restype_None | Restype_c_int

record cdll =
  lib_name :: string
  exported :: "string list"
  restypes :: "string \<rightharpoonup> restype"

text \<open>
  The state of the process that \<^verbatim>\<open>init\<close> touches: the module global, and the paths
  of the libraries loaded so far, in order.
\<close>

record process =
  COLD_CLEAR_LIB :: "cdll option"
  loaded :: "string list"

definition process_start :: process where
  "process_start = \<lparr>COLD_CLEAR_LIB = None, loaded = []\<rparr>"

definition set_restype :: "string \<Rightarrow> restype \<Rightarrow> cdll \<Rightarrow> py_error + cdll" where
  "set_restype name r lib =
     (if name \<in> set (exported lib)
      then Inr (lib\<lparr>restypes := (restypes lib)(name \<mapsto> r)\<rparr>)
      else Inl AttributeError)"

text \<open>The assignments of lines 17--26, in order; the first that raises ends the call.\<close>

fun set_restypes :: "(string \<times> restype) list \<Rightarrow> cdll \<Rightarrow> py_error option \<times> cdll" where
  "set_restypes [] lib = (None, lib)"
| "set_restypes ((name, r) # rest) lib =
     (case set_restype name r lib of
        Inl e \<Rightarrow> (Some e, lib)
      | Inr lib' \<Rightarrow> set_restypes rest lib')"

definition init_restypes :: "(string \<times> restype) list" where
  "init_restypes =
     [(''cc_launch_async'', Restype_c_void_p),
      (''cc_destroy_async'', Restype_None),
      (''cc_reset_async'', Restype_None),
      (''cc_add_next_piece_async'', Restype_None),
      (''cc_request_next_move'', Restype_None),
      (''cc_poll_next_move'', Restype_c_int),
      (''cc_block_next_move'', Restype_c_int),
      (''cc_default_options'', Restype_None),
      (''cc_default_weights'', Restype_None),
      (''cc_fast_weights'', Restype_None)]"

definition init :: "(string \<Rightarrow> string list option) \<Rightarrow> string \<Rightarrow> process \<Rightarrow> unit outcome \<times> process" where
  "init dlopen path s =
     (case COLD_CLEAR_LIB s of
        Some lib \<Rightarrow> (Returns (), s)
      | None \<Rightarrow>
          (case dlopen path of
             None \<Rightarrow> (Raises OSError, s)
           | Some names \<Rightarrow>
               (case set_restypes init_restypes \<lparr>lib_name = path, exported = names, restypes = Map.empty\<rparr> of
                  (stop, lib) \<Rightarrow>
                    (case stop of None \<Rightarrow> Returns () | Some e \<Rightarrow> Raises e,
                     s\<lparr>COLD_CLEAR_LIB := Some lib, loaded := loaded s @ [path]\<rparr>))))"

text \<open>
  A run of \<^verbatim>\<open>init\<close> calls, each with the files as they are at that moment, by a caller
  that goes on after an exception.
\<close>

fun run_inits :: "((string \<Rightarrow> string list option) \<times> string) list \<Rightarrow> process \<Rightarrow> process" where
  "run_inits [] s = s"
| "run_inits ((dlopen, path) # calls) s = run_inits calls (snd (init dlopen path s))"

text \<open>The statement sequence \<^verbatim>\<open>init(p1); init(p2)\<close>: an exception of the first ends it.\<close>

definition init_twice ::
  "(string \<Rightarrow> string list option) \<Rightarrow> string \<Rightarrow> (string \<Rightarrow> string list option) \<Rightarrow> string \<Rightarrow>
     process \<Rightarrow> unit outcome \<times> process" where
  "init_twice dlopen1 p1 dlopen2 p2 s =
     (case init dlopen1 p1 s of
        (Returns u, s1) \<Rightarrow> init dlopen2 p2 s1
      | (stop, s1) \<Rightarrow> (stop, s1))"

section \<open>The handle (lines 176--292)\<close>

subsection \<open>The foreign functions\<close>

text \<open>
  The functions of the loaded library are parameters of the model. They work on the state
  \<open>'e\<close> of the engine, which the bindings never see. A pointer argument is an address,
  with 0 the null pointer. The two functions that give the next move get the handle, the
  move buffer, the plan buffer (\<open>None\<close> for a null pointer) and the capacity stored behind
  the length pointer; they answer with the status, the buffers as they have left them and
  the length they have stored, or never come back (\<open>None\<close>).
\<close>

record next_move_response =
  status :: c_int_val
  move_out :: CCMove
  plan_out :: "CCPlanPlacement list"
  plan_length_out :: c_uint32_val

type_synonym 'e next_move_entry =
  "nat \<Rightarrow> CCMove \<Rightarrow> CCPlanPlacement list option \<Rightarrow> c_uint32_val \<Rightarrow> 'e
     \<Rightarrow> (next_move_response \<times> 'e) option"

record 'e lib =
  cc_launch_async :: "CCOptions \<Rightarrow> CCWeights \<Rightarrow> 'e \<Rightarrow> nat \<times> 'e"
  cc_destroy_async :: "nat \<Rightarrow> 'e \<Rightarrow> 'e"
  cc_reset_async :: "nat \<Rightarrow> bool list \<Rightarrow> bool \<Rightarrow> c_uint32_val \<Rightarrow> 'e \<Rightarrow> 'e"
  cc_add_next_piece_async :: "nat \<Rightarrow> c_int_val \<Rightarrow> 'e \<Rightarrow> 'e"
  cc_request_next_move :: "nat \<Rightarrow> c_uint32_val \<Rightarrow> 'e \<Rightarrow> 'e"
  cc_poll_next_move :: "'e next_move_entry"
  cc_block_next_move :: "'e next_move_entry"

text \<open>Every call made into the library is also written to a log, with its arguments.\<close>

datatype ffi_call =
    Call_launch_async CCOptions CCWeights
  | Call_destroy_async nat
  | Call_reset_async nat "bool list" bool c_uint32_val
  | Call_add_next_piece_async nat c_int_val
  | Call_request_next_move nat c_uint32_val
  | Call_next_move string nat "CCPlanPlacement list option" c_uint32_val

record 'e world =
  engine :: 'e
  ffi_log :: "ffi_call list"

definition ffi :: "ffi_call \<Rightarrow> 'e \<Rightarrow> 'e world \<Rightarrow> 'e world" where
  "ffi c e' w = \<lparr>engine = e', ffi_log = ffi_log w @ [c]\<rparr>"

subsection \<open>The handle object\<close>

text \<open>
  \<^verbatim>\<open>self._handle\<close> is \<^verbatim>\<open>None\<close> or a \<^verbatim>\<open>c_void_p\<close> object; such an object differs from
  \<^verbatim>\<open>None\<close> whatever address it holds. As an argument of a foreign function \<^verbatim>\<open>None\<close> is
  the null pointer and the object is its address.
\<close>

datatype c_void_p = C_void_p nat

record CCHandle =
  handle :: "c_void_p option"

fun as_pointer :: "c_void_p option \<Rightarrow> nat" where
  "as_pointer None = 0"
| "as_pointer (Some (C_void_p a)) = a"

definition CCHandle_init :: "'e lib \<Rightarrow> CCOptions \<Rightarrow> CCWeights \<Rightarrow> 'e world \<Rightarrow> CCHandle \<times> 'e world" where
  "CCHandle_init l options weights w =
     (case cc_launch_async l options weights (engine w) of
        (a, e') \<Rightarrow> (\<lparr>handle = Some (C_void_p a)\<rparr>, ffi (Call_launch_async options weights) e' w))"

definition terminate :: "'e lib \<Rightarrow> CCHandle \<Rightarrow> 'e world \<Rightarrow> CCHandle \<times> 'e world" where
  "terminate l self w =
     (if handle self \<noteq> None
      then (self\<lparr>handle := None\<rparr>,
            ffi (Call_destroy_async (as_pointer (handle self)))
              (cc_destroy_async l (as_pointer (handle self)) (engine w)) w)
      else (self, w))"

definition enter :: "CCHandle \<Rightarrow> CCHandle" where
  "enter self = self"

definition exit :: "'e lib \<Rightarrow> CCHandle \<Rightarrow> 'e world \<Rightarrow> CCHandle \<times> 'e world" where
  "exit l self w = terminate l self w"

subsection \<open>reset (lines 202--220)\<close>

text \<open>The inner loop: \<^verbatim>\<open>for x, cell in enumerate(row): raw_field[x + y * 10] = cell\<close>.\<close>

fun store_row :: "nat \<Rightarrow> (nat \<times> bool) list \<Rightarrow> bool list \<Rightarrow> py_error + bool list" where
  "store_row y [] raw_field = Inr raw_field"
| "store_row y ((x, cell) # cells) raw_field =
     (case array_set raw_field (x + y * 10) cell of
        Inl e \<Rightarrow> Inl e
      | Inr raw_field' \<Rightarrow> store_row y cells raw_field')"

text \<open>The outer loop: \<^verbatim>\<open>for y, row in enumerate(field)\<close>.\<close>

fun store_rows :: "(nat \<times> bool list) list \<Rightarrow> bool list \<Rightarrow> py_error + bool list" where
  "store_rows [] raw_field = Inr raw_field"
| "store_rows ((y, row) # rows) raw_field =
     (case store_row y (enumerate 0 row) raw_field of
        Inl e \<Rightarrow> Inl e
      | Inr raw_field' \<Rightarrow> store_rows rows raw_field')"

definition marshal_field :: "bool list list \<Rightarrow> py_error + bool list" where
  "marshal_field field = store_rows (enumerate 0 field) (replicate 400 False)"

definition reset :: "'e lib \<Rightarrow> CCHandle \<Rightarrow> bool list list \<Rightarrow> bool \<Rightarrow> int \<Rightarrow> 'e world \<Rightarrow> unit outcome \<times> 'e world" where
  "reset l self field b2b combo w =
     (case marshal_field field of
        Inl e \<Rightarrow> (Raises e, w)
      | Inr raw_field \<Rightarrow>
          (Returns (),
           ffi (Call_reset_async (as_pointer (handle self)) raw_field b2b (word_of_int combo))
             (cc_reset_async l (as_pointer (handle self)) raw_field b2b (word_of_int combo) (engine w)) w))"

subsection \<open>add\_next\_piece and request\_next\_move (lines 222--253)\<close>

definition add_next_piece :: "'e lib \<Rightarrow> CCHandle \<Rightarrow> int \<Rightarrow> 'e world \<Rightarrow> 'e world" where
  "add_next_piece l self pc w =
     ffi (Call_add_next_piece_async (as_pointer (handle self)) (word_of_int pc))
       (cc_add_next_piece_async l (as_pointer (handle self)) (word_of_int pc) (engine w)) w"

definition request_next_move :: "'e lib \<Rightarrow> CCHandle \<Rightarrow> int \<Rightarrow> 'e world \<Rightarrow> 'e world" where
  "request_next_move l self incoming w =
     ffi (Call_request_next_move (as_pointer (handle self)) (word_of_int incoming))
       (cc_request_next_move l (as_pointer (handle self)) (word_of_int incoming) (engine w)) w"

subsection \<open>Polling and blocking (lines 255--292)\<close>

text \<open>
  The plan array has \<open>plan_length\<close> elements for its whole life. What the library writes
  through the pointer replaces elements from the front; nothing is written through a null
  pointer, and what would fall behind the last element is not part of the array.
\<close>

definition plan_after :: "CCPlanPlacement list \<Rightarrow> CCPlanPlacement list option \<Rightarrow> CCPlanPlacement list \<Rightarrow> CCPlanPlacement list" where
  "plan_after plan plan_ptr written =
     (case plan_ptr of
        None \<Rightarrow> plan
      | Some buffer \<Rightarrow> take (length plan) written @ drop (length written) plan)"

text \<open>
  \<^verbatim>\<open>fn\<close> is a function object of the library: its name and what it does. A negative
  \<open>plan_length\<close> makes \<^verbatim>\<open>CCPlanPlacement * plan_length\<close> raise \<^verbatim>\<open>ValueError\<close>;
  \<^verbatim>\<open>c_uint32(plan_length)\<close> keeps the low 32 bits; the slice \<^verbatim>\<open>plan[0:n]\<close> stops at the
  end of the array. The status comes back as a Python integer.
\<close>

definition next_move_fn ::
  "string \<times> 'e next_move_entry \<Rightarrow> CCHandle \<Rightarrow> int \<Rightarrow> 'e world
     \<Rightarrow> (int \<times> CCMove \<times> CCPlanPlacement list) outcome \<times> 'e world" where
  "next_move_fn fn self plan_length w =
     (if plan_length < 0 then (Raises ValueError, w)
      else
        let move = CCMove_new;
            plan = replicate (nat plan_length) CCPlanPlacement_new;
            plan_ptr = (if plan_length > 0 then Some plan else None);
            raw_plan_length = (word_of_int plan_length :: c_uint32_val);
            call = Call_next_move (fst fn) (as_pointer (handle self)) plan_ptr raw_plan_length
        in case snd fn (as_pointer (handle self)) move plan_ptr raw_plan_length (engine w) of
             None \<Rightarrow> (Never_returns, ffi call (engine w) w)
           | Some (r, e') \<Rightarrow>
               (Returns (sint (status r), move_out r,
                         take (unat (plan_length_out r)) (plan_after plan plan_ptr (plan_out r))),
                ffi call e' w))"

definition poll_next_move ::
  "'e lib \<Rightarrow> CCHandle \<Rightarrow> int \<Rightarrow> 'e world \<Rightarrow> (int \<times> CCMove \<times> CCPlanPlacement list) outcome \<times> 'e world" where
  "poll_next_move l self plan_length w =
     next_move_fn (''cc_poll_next_move'', cc_poll_next_move l) self plan_length w"

definition block_next_move ::
  "'e lib \<Rightarrow> CCHandle \<Rightarrow> int \<Rightarrow> 'e world \<Rightarrow> (int \<times> CCMove \<times> CCPlanPlacement list) outcome \<times> 'e world" where
  "block_next_move l self plan_length w =
     next_move_fn (''cc_block_next_move'', cc_block_next_move l) self plan_length w"

text \<open>Both methods declare \<^verbatim>\<open>plan_length = 0\<close> as the default.\<close>

definition default_plan_length :: int where
  "default_plan_length = 0"

subsection \<open>Runs of method calls on one handle\<close>

datatype method_call =
    Terminate
  | Enter
  | Exit
  | Reset "bool list list" bool int
  | Add_next_piece int
  | Request_next_move int
  | Poll_next_move int
  | Block_next_move int

fun call_method :: "'e lib \<Rightarrow> method_call \<Rightarrow> CCHandle \<times> 'e world \<Rightarrow> CCHandle \<times> 'e world" where
  "call_method l Terminate (self, w) = terminate l self w"
| "call_method l Enter (self, w) = (enter self, w)"
| "call_method l Exit (self, w) = exit l self w"
| "call_method l (Reset field b2b combo) (self, w) = (self, snd (reset l self field b2b combo w))"
| "call_method l (Add_next_piece pc) (self, w) = (self, add_next_piece l self pc w)"
| "call_method l (Request_next_move incoming) (self, w) = (self, request_next_move l self incoming w)"
| "call_method l (Poll_next_move plan_length) (self, w) = (self, snd (poll_next_move l self plan_length w))"
| "call_method l (Block_next_move plan_length) (self, w) = (self, snd (block_next_move l self plan_length w))"

fun call_methods :: "'e lib \<Rightarrow> method_call list \<Rightarrow> CCHandle \<times> 'e world \<Rightarrow> CCHandle \<times> 'e world" where
  "call_methods l [] hw = hw"
| "call_methods l (c # cs) hw = call_methods l cs (call_method l c hw)"

fun is_destroy :: "ffi_call \<Rightarrow> bool" where
  "is_destroy (Call_destroy_async a) = True"
| "is_destroy c = False"

definition destroy_count :: "'e world \<Rightarrow> nat" where
  "destroy_count w = length (filter is_destroy (ffi_log w))"

definition next_move_call ::
  "'e lib \<Rightarrow> bool \<Rightarrow> CCHandle \<Rightarrow> int \<Rightarrow> 'e world
     \<Rightarrow> (int \<times> CCMove \<times> CCPlanPlacement list) outcome \<times> 'e world" where
  "next_move_call l blocking self plan_length w =
     (if blocking then block_next_move l self plan_length w
      else poll_next_move l self plan_length w)"

section \<open>The engine of the specification\<close>

text \<open>
  Modelled from the spec: the engine behind the foreign functions is the \<^verbatim>\<open>cold_clear\<close>
  dynamic library, which the module loads and which is not among the sources. What follows
  is the engine as sections 4.1 to 4.3 and 7 of the specification describe it, for the one
  agent behind one handle: the board, the piece queue, and the state of the pending request
  (idle; requested; resolved to a move with its plan; dead, which is terminal for the
  handle until a reset gives a fresh board). The search is not modelled: what the worker
  concludes, and when, are events of their own beside the calls of the host. After
  \<^verbatim>\<open>terminate\<close> there is no engine; the specification leaves calls on a terminated handle
  undefined, and here they get no answer.
\<close>

text \<open>
  Modelled from the spec: the states of the pending request of section 4.3 (idle,
  requested, resolved to a move, dead), and the state the absent engine keeps for one agent
  (the board state and piece queue of section 3). A new agent has the empty board, no
  back-to-back, combo 0 and an empty queue (section 4.1).
\<close>

datatype request_state = Idle | Requested | Resolved CCMove "CCPlanPlacement list" | Dead

record agent =
  agent_board :: "bool list"
  agent_b2b :: bool
  agent_combo :: c_uint32_val
  agent_queue :: "c_int_val list"
  request :: request_state

definition agent_start :: agent where
  "agent_start =
     \<lparr>agent_board = replicate 400 False, agent_b2b = False, agent_combo = 0,
      agent_queue = [], request = Idle\<rparr>"

text \<open>
  Modelled from the spec: the absent \<^verbatim>\<open>cc_launch_async\<close>, \<^verbatim>\<open>cc_destroy_async\<close>,
  \<^verbatim>\<open>cc_reset_async\<close>, \<^verbatim>\<open>cc_add_next_piece_async\<close> and \<^verbatim>\<open>cc_request_next_move\<close> (sections
  4.1 to 4.3). A reset replaces the board and discards the pending request, the dead state
  with it; a piece is appended to the queue; a request makes an idle agent a requested one.
\<close>

definition spec_launch :: "CCOptions \<Rightarrow> CCWeights \<Rightarrow> agent option \<Rightarrow> nat \<times> agent option" where
  "spec_launch options weights e = (1, Some agent_start)"

definition spec_destroy :: "nat \<Rightarrow> agent option \<Rightarrow> agent option" where
  "spec_destroy a e = None"

definition spec_reset :: "nat \<Rightarrow> bool list \<Rightarrow> bool \<Rightarrow> c_uint32_val \<Rightarrow> agent option \<Rightarrow> agent option" where
  "spec_reset a raw_field b c e =
     map_option (\<lambda>g. g\<lparr>agent_board := raw_field, agent_b2b := b, agent_combo := c, request := Idle\<rparr>) e"

definition spec_add_next_piece :: "nat \<Rightarrow> c_int_val \<Rightarrow> agent option \<Rightarrow> agent option" where
  "spec_add_next_piece a pc e = map_option (\<lambda>g. g\<lparr>agent_queue := agent_queue g @ [pc]\<rparr>) e"

definition spec_request :: "nat \<Rightarrow> c_uint32_val \<Rightarrow> agent option \<Rightarrow> agent option" where
  "spec_request a incoming e =
     map_option (\<lambda>g. case request g of Idle \<Rightarrow> g\<lparr>request := Requested\<rparr> | other \<Rightarrow> g) e"

text \<open>
  Modelled from the spec: the answers of the absent \<^verbatim>\<open>cc_poll_next_move\<close> and
  \<^verbatim>\<open>cc_block_next_move\<close> (section 4.3). A resolved request is answered with
  MOVE\_PROVIDED (0), the move, and the plan cut to the capacity where a plan buffer was
  given; the count is stored only when a move is provided (docstring of
  \<^verbatim>\<open>poll_next_move\<close>). Any other answer, WAITING (1) or DEAD (2), leaves the buffers and
  the count as they were.
\<close>

definition provide :: "CCMove \<Rightarrow> CCPlanPlacement list \<Rightarrow> CCPlanPlacement list option \<Rightarrow> c_uint32_val \<Rightarrow> next_move_response" where
  "provide m p plan_ptr capacity =
     (case plan_ptr of
        None \<Rightarrow> \<lparr>status = 0, move_out = m, plan_out = [], plan_length_out = capacity\<rparr>
      | Some buffer \<Rightarrow>
          \<lparr>status = 0, move_out = m, plan_out = take (unat capacity) p,
           plan_length_out = word_of_nat (min (unat capacity) (length p))\<rparr>)"

definition no_move :: "c_int_val \<Rightarrow> CCMove \<Rightarrow> c_uint32_val \<Rightarrow> next_move_response" where
  "no_move st move capacity = \<lparr>status = st, move_out = move, plan_out = [], plan_length_out = capacity\<rparr>"

text \<open>
  Modelled from the spec: polling never waits; a dead agent answers DEAD and stays dead, a
  resolved request is handed over and the agent is idle again, anything else is WAITING.
\<close>

definition spec_poll :: "agent option next_move_entry" where
  "spec_poll a move plan_ptr capacity e =
     (case e of
        None \<Rightarrow> None
      | Some g \<Rightarrow>
          (case request g of
             Dead \<Rightarrow> Some (no_move 2 move capacity, e)
           | Resolved m p \<Rightarrow> Some (provide m p plan_ptr capacity, Some (g\<lparr>request := Idle\<rparr>))
           | Requested \<Rightarrow> Some (no_move 1 move capacity, e)
           | Idle \<Rightarrow> Some (no_move 1 move capacity, e)))"

text \<open>
  Modelled from the spec: blocking has the contract of polling, but where polling would
  answer WAITING the call stays suspended; with no event of the worker inside one call,
  that call does not come back.
\<close>

definition spec_block :: "agent option next_move_entry" where
  "spec_block a move plan_ptr capacity e =
     (case e of
        None \<Rightarrow> None
      | Some g \<Rightarrow>
          (case request g of
             Dead \<Rightarrow> Some (no_move 2 move capacity, e)
           | Resolved m p \<Rightarrow> Some (provide m p plan_ptr capacity, Some (g\<lparr>request := Idle\<rparr>))
           | Requested \<Rightarrow> None
           | Idle \<Rightarrow> None))"

text \<open>Modelled from the spec: the library made of these functions.\<close>

definition spec_engine :: "agent option lib" where
  "spec_engine =
     \<lparr>cc_launch_async = spec_launch,
      cc_destroy_async = spec_destroy,
      cc_reset_async = spec_reset,
      cc_add_next_piece_async = spec_add_next_piece,
      cc_request_next_move = spec_request,
      cc_poll_next_move = spec_poll,
      cc_block_next_move = spec_block\<rparr>"

text \<open>
  Modelled from the spec: the worker of the absent engine resolves a pending request with
  a move, or finds that the position cannot be survived; a dead agent stays dead.
\<close>

datatype worker_event = Worker_provides CCMove "CCPlanPlacement list" | Worker_dies

fun worker_step :: "worker_event \<Rightarrow> agent option \<Rightarrow> agent option" where
  "worker_step (Worker_provides m p) e =
     map_option (\<lambda>g. case request g of Requested \<Rightarrow> g\<lparr>request := Resolved m p\<rparr> | other \<Rightarrow> g) e"
| "worker_step Worker_dies e = map_option (\<lambda>g. g\<lparr>request := Dead\<rparr>) e"

datatype event = Host method_call | Worker worker_event

fun step :: "event \<Rightarrow> CCHandle \<times> agent option world \<Rightarrow> CCHandle \<times> agent option world" where
  "step (Host c) hw = call_method spec_engine c hw"
| "step (Worker ev) (self, w) = (self, w\<lparr>engine := worker_step ev (engine w)\<rparr>)"

fun run :: "event list \<Rightarrow> CCHandle \<times> agent option world \<Rightarrow> CCHandle \<times> agent option world" where
  "run [] hw = hw"
| "run (ev # evs) hw = run evs (step ev hw)"

text \<open>Events that leave the handle live and its board as it is.\<close>

fun keeps_position :: "event \<Rightarrow> bool" where
  "keeps_position (Host Terminate) = False"
| "keeps_position (Host Exit) = False"
| "keeps_position (Host (Reset field b2b combo)) = False"
| "keeps_position ev = True"

section \<open>The declared layouts as the specification lists them\<close>

text \<open>
  The widths the specification names: \<open>bool\<close>, \<open>u8\<close>, \<open>int\<close>, \<open>u32\<close>, \<open>int32\<close>, and arrays
  of them. \<open>abi_of\<close> reads a \<^verbatim>\<open>ctypes\<close> type as one of these. The three lists are the
  field lists of section 6 of the specification, with the field names in the spelling of
  the module (the specification writes \<open>movementCount\<close>, \<open>originalRank\<close>, \<open>clearedLines\<close>,
  \<open>useHold\<close>, \<open>pcLoop\<close>, \<open>minNodes\<close>, \<open>maxNodes\<close>).
\<close>

datatype abi_type = Abi_bool | Abi_u8 | Abi_int | Abi_u32 | Abi_int32 | Abi_array abi_type nat

fun abi_of :: "ctype \<Rightarrow> abi_type" where
  "abi_of c_bool = Abi_bool"
| "abi_of c_uint8 = Abi_u8"
| "abi_of c_int = Abi_int"
| "abi_of c_uint32 = Abi_u32"
| "abi_of c_int32 = Abi_int32"
| "abi_of (c_array t n) = Abi_array (abi_of t) n"

definition claimed_CCMove_layout :: "(string \<times> abi_type) list" where
  "claimed_CCMove_layout =
     [(''hold'', Abi_bool),
      (''expected_x'', Abi_array Abi_u8 4),
      (''expected_y'', Abi_array Abi_u8 4),
      (''movement_count'', Abi_u8),
      (''movements'', Abi_array Abi_int 32),
      (''nodes'', Abi_u32),
      (''depth'', Abi_u32),
      (''original_rank'', Abi_u32)]"

definition claimed_CCPlanPlacement_layout :: "(string \<times> abi_type) list" where
  "claimed_CCPlanPlacement_layout =
     [(''piece'', Abi_int),
      (''tspin'', Abi_int),
      (''expected_x'', Abi_array Abi_u8 4),
      (''expected_y'', Abi_array Abi_u8 4),
      (''cleared_lines'', Abi_array Abi_int32 4)]"

definition claimed_CCOptions_layout :: "(string \<times> abi_type) list" where
  "claimed_CCOptions_layout =
     [(''mode'', Abi_int),
      (''use_hold'', Abi_bool),
      (''speculate'', Abi_bool),
      (''pcloop'', Abi_bool),
      (''min_nodes'', Abi_u32),
      (''max_nodes'', Abi_u32),
      (''threads'', Abi_u32)]"

section \<open>Notions used in the proofs\<close>

text \<open>The plan pointer that \<^verbatim>\<open>_next_move_fn\<close> passes for a capacity.\<close>

definition plan_pointer :: "int \<Rightarrow> CCPlanPlacement list option" where
  "plan_pointer n = (if 0 < n then Some (replicate (nat n) CCPlanPlacement_new) else None)"

text \<open>Releases so far, plus the one still owed while the handle holds a pointer.\<close>

definition releases_due :: "CCHandle \<times> 'e world \<Rightarrow> nat" where
  "releases_due hw = destroy_count (snd hw) + (if handle (fst hw) = None then 0 else 1)"

text \<open>The log of loaded libraries agrees with the module global.\<close>

definition loaded_agrees :: "process \<Rightarrow> bool" where
  "loaded_agrees s \<longleftrightarrow>
     loaded s = (case COLD_CLEAR_LIB s of None \<Rightarrow> [] | Some lib \<Rightarrow> [lib_name lib])"

definition is_dead :: "agent option world \<Rightarrow> bool" where
  "is_dead w = (case engine w of None \<Rightarrow> False | Some g \<Rightarrow> request g = Dead)"

subsection \<open>Concrete inputs\<close>

definition example_handle :: CCHandle where
  "example_handle = \<lparr>handle = Some (C_void_p 1)\<rparr>"

definition example_world :: "request_state \<Rightarrow> agent option world" where
  "example_world r = \<lparr>engine = Some (agent_start\<lparr>request := r\<rparr>), ffi_log = []\<rparr>"

definition example_plan :: "CCPlanPlacement list" where
  "example_plan = replicate 3 (CCPlanPlacement_new\<lparr>piece := 1\<rparr>)"

definition example_field :: "bool list list" where
  "example_field = replicate 40 (True # replicate 9 False)"

definition example_move :: CCMove where
  "example_move = CCMove_new\<lparr>movement_count := 2, movements := [4, 0] @ replicate 30 0\<rparr>"

section \<open>The declarations\<close>

text \<open>
  C6. The field lists of \<^verbatim>\<open>CCMove\<close>, \<^verbatim>\<open>CCPlanPlacement\<close> and \<^verbatim>\<open>CCOptions\<close> declare the
  fields of the specification's layouts, in the same order and with the same widths:
  for the move hold (bool), expected\_x[4] and expected\_y[4] (u8), movement\_count (u8),
  movements[32] (int), nodes, depth and original\_rank (u32); for a plan placement piece
  and tspin (int), expected\_x[4] and expected\_y[4] (u8), cleared\_lines[4] (int32, a
  signed type, so that it can hold the -1 that stands for no line); for the options mode
  (int), use\_hold, speculate and pcloop (bool), min\_nodes, max\_nodes and threads (u32).
\<close>

theorem structure_layouts_match:
  "map (apsnd abi_of) CCMove_fields = claimed_CCMove_layout
   \<and> map (apsnd abi_of) CCPlanPlacement_fields = claimed_CCPlanPlacement_layout
   \<and> map (apsnd abi_of) CCOptions_fields = claimed_CCOptions_layout"
  by (simp add: CCMove_fields_def claimed_CCMove_layout_def
      CCPlanPlacement_fields_def claimed_CCPlanPlacement_layout_def
      CCOptions_fields_def claimed_CCOptions_layout_def)

text \<open>
  C7. \<^verbatim>\<open>CCPiece\<close> gives the seven pieces I, T, O, S, Z, L, J the values 0 to 6 in this
  order (there is no other piece and no other value), and \<^verbatim>\<open>CCBotPollStatus\<close> gives
  MOVE\_PROVIDED the value 0, WAITING 1 and DEAD 2.
\<close>

theorem enum_wire_encodings:
  "map CCPiece_value [Piece_I, Piece_T, Piece_O, Piece_S, Piece_Z, Piece_L, Piece_J]
     = [0, 1, 2, 3, 4, 5, 6]
   \<and> set [Piece_I, Piece_T, Piece_O, Piece_S, Piece_Z, Piece_L, Piece_J] = UNIV
   \<and> map CCBotPollStatus_value [MOVE_PROVIDED, WAITING, DEAD] = [0, 1, 2]"
proof -
  have "p \<in> set [Piece_I, Piece_T, Piece_O, Piece_S, Piece_Z, Piece_L, Piece_J]" for p
    by (cases p) simp_all
  then have "set [Piece_I, Piece_T, Piece_O, Piece_S, Piece_Z, Piece_L, Piece_J] = UNIV"
    by blast
  then show ?thesis
    by simp
qed

section \<open>The iterators\<close>

lemma yield_each_all:
  "(\<And>i. i \<in> set ns \<Longrightarrow> body i = Inr (f i)) \<Longrightarrow> yield_each body ns = (map f ns, None)"
  by (induction ns) auto

lemma expected_cell_in:
  "i < length xs \<Longrightarrow> i < length ys \<Longrightarrow> expected_cell xs ys i = Inr (uint (xs ! i), uint (ys ! i))"
  by (simp add: expected_cell_def array_get_def)

text \<open>
  C10. On a move and on a plan placement \<^verbatim>\<open>expected_cells_iter\<close> yields the four pairs
  (expected\_x[i], expected\_y[i]) for i = 0, 1, 2, 3 in this order and ends; on a move
  whose movement\_count is at most 32, \<^verbatim>\<open>movements_iter\<close> yields the first movement\_count
  entries of movements in index order and ends.
\<close>

theorem iterators_faithful:
  assumes "CCMove_wf m" and "CCPlanPlacement_wf p" and "unat (movement_count m) \<le> 32"
  shows "CCMove_expected_cells_iter m =
           (map (\<lambda>i. (uint (expected_x m ! i), uint (expected_y m ! i))) [0, 1, 2, 3], None)
       \<and> CCPlanPlacement_expected_cells_iter p =
           (map (\<lambda>i. (uint (pp_expected_x p ! i), uint (pp_expected_y p ! i))) [0, 1, 2, 3], None)
       \<and> movements_iter m =
           (map sint (take (unat (movement_count m)) (movements m)), None)"
proof -
  have r4: "[0..<4] = [0, 1, 2, 3::nat]"
    by (simp add: upt_rec)
  have a: "CCMove_expected_cells_iter m =
           (map (\<lambda>i. (uint (expected_x m ! i), uint (expected_y m ! i))) [0..<4], None)"
    unfolding CCMove_expected_cells_iter_def using assms(1)
    by (intro yield_each_all expected_cell_in) (simp_all add: CCMove_wf_def)
  have b: "CCPlanPlacement_expected_cells_iter p =
           (map (\<lambda>i. (uint (pp_expected_x p ! i), uint (pp_expected_y p ! i))) [0..<4], None)"
    unfolding CCPlanPlacement_expected_cells_iter_def using assms(2)
    by (intro yield_each_all expected_cell_in) (simp_all add: CCPlanPlacement_wf_def)
  have c: "movements_iter m =
           (map (\<lambda>i. sint (movements m ! i)) [0..<unat (movement_count m)], None)"
    unfolding movements_iter_def using assms(1,3)
    by (intro yield_each_all) (simp add: CCMove_wf_def array_get_def)
  have d: "map (\<lambda>i. sint (movements m ! i)) [0..<unat (movement_count m)]
         = map sint (take (unat (movement_count m)) (movements m))"
    using assms(1,3) by (simp add: CCMove_wf_def list_eq_iff_nth_eq)
  from a b c d r4 show ?thesis by simp
qed

theorem iterators_faithful_witness:
  "CCMove_wf example_move \<and> CCPlanPlacement_wf CCPlanPlacement_new
   \<and> unat (movement_count example_move) \<le> 32
   \<and> CCMove_expected_cells_iter example_move = ([(0, 0), (0, 0), (0, 0), (0, 0)], None)
   \<and> CCPlanPlacement_expected_cells_iter CCPlanPlacement_new = ([(0, 0), (0, 0), (0, 0), (0, 0)], None)
   \<and> movements_iter example_move = ([4, 0], None)"
proof -
  have h1: "CCMove_wf example_move"
    by (simp add: CCMove_wf_def example_move_def CCMove_new_def)
  have h2: "CCPlanPlacement_wf CCPlanPlacement_new"
    by (simp add: CCPlanPlacement_wf_def CCPlanPlacement_new_def)
  have h3: "unat (movement_count example_move) \<le> 32"
    by (simp add: example_move_def)
  show ?thesis
    using h1 h2 h3 iterators_faithful [OF h1 h2 h3]
    by (simp add: example_move_def CCMove_new_def CCPlanPlacement_new_def)
qed

text \<open>
  Beyond 32 the bound matters: with movement\_count 33 the iterator yields the 32 entries
  of the array and then stops with \<^verbatim>\<open>IndexError\<close>.
\<close>

lemma movements_iter_beyond_array:
  "movements_iter (CCMove_new\<lparr>movement_count := 33\<rparr>) = (replicate 32 0, Some IndexError)"
  by code_simp


section \<open>Loading the library once\<close>

lemma lib_name_set_restypes: "lib_name (snd (set_restypes rs lib)) = lib_name lib"
  by (induction rs lib rule: set_restypes.induct) (auto simp: set_restype_def split: sum.splits)

lemma init_when_loaded: "COLD_CLEAR_LIB s = Some lib \<Longrightarrow> init dlopen path s = (Returns (), s)"
  by (simp add: init_def)

lemma init_loaded_agrees: "loaded_agrees s \<Longrightarrow> loaded_agrees (snd (init dlopen path s))"
proof (cases "COLD_CLEAR_LIB s")
  case None
  assume agrees: "loaded_agrees s"
  show ?thesis
  proof (cases "dlopen path")
    case no_library: None
    with None agrees show ?thesis by (simp add: init_def)
  next
    case (Some names)
    obtain stop lib where configured:
      "set_restypes init_restypes \<lparr>lib_name = path, exported = names, restypes = Map.empty\<rparr> = (stop, lib)"
      by (cases "set_restypes init_restypes \<lparr>lib_name = path, exported = names, restypes = Map.empty\<rparr>")
    have "lib_name lib = path"
      using lib_name_set_restypes [of init_restypes "\<lparr>lib_name = path, exported = names, restypes = Map.empty\<rparr>"]
        configured
      by simp
    with None Some configured agrees show ?thesis
      by (simp add: init_def loaded_agrees_def)
  qed
next
  case (Some lib)
  assume "loaded_agrees s"
  with Some show ?thesis by (simp add: init_def)
qed

lemma run_inits_loaded_agrees: "loaded_agrees s \<Longrightarrow> loaded_agrees (run_inits calls s)"
  by (induction calls s rule: run_inits.induct) (simp_all add: init_loaded_agrees)

lemma run_inits_when_loaded: "COLD_CLEAR_LIB s = Some lib \<Longrightarrow> run_inits calls s = s"
  by (induction calls s rule: run_inits.induct) (simp_all add: init_when_loaded)

lemma init_returns_loaded:
  "init dlopen path s = (Returns u, s1) \<Longrightarrow> \<exists>lib. COLD_CLEAR_LIB s1 = Some lib"
  by (auto simp: init_def split: option.splits prod.splits)

lemma init_twice_is_init: "init_twice dlopen1 p1 dlopen2 p2 s = init dlopen1 p1 s"
proof (cases "init dlopen1 p1 s")
  case (Pair out s1)
  show ?thesis
  proof (cases out)
    case (Returns u)
    with Pair obtain lib where "COLD_CLEAR_LIB s1 = Some lib"
      using init_returns_loaded by blast
    with Pair Returns show ?thesis
      by (simp add: init_twice_def init_when_loaded)
  qed (use Pair in \<open>simp_all add: init_twice_def\<close>)
qed

text \<open>
  C8. \<^verbatim>\<open>init\<close> loads at most one library in a process. With the module global set, a call
  of \<^verbatim>\<open>init\<close> returns and changes nothing, whatever its path and whatever the files are
  (first and third conjunct, for one call and for any run of calls). The sequence
  \<^verbatim>\<open>init(p1); init(p2)\<close> ends as \<^verbatim>\<open>init(p1)\<close> alone does, in its outcome, in the library
  kept and in the libraries loaded (second conjunct). From the start of the process, any
  run of calls has loaded no library and kept none, or has loaded exactly the one it keeps
  (last two conjuncts).
\<close>

theorem init_loads_once:
  "init dlopen path (s\<lparr>COLD_CLEAR_LIB := Some lib\<rparr>) = (Returns (), s\<lparr>COLD_CLEAR_LIB := Some lib\<rparr>)
   \<and> init_twice dlopen1 p1 dlopen2 p2 s = init dlopen1 p1 s
   \<and> run_inits calls (s\<lparr>COLD_CLEAR_LIB := Some lib\<rparr>) = s\<lparr>COLD_CLEAR_LIB := Some lib\<rparr>
   \<and> length (loaded (run_inits calls process_start)) \<le> 1
   \<and> loaded (run_inits calls process_start) =
       (case COLD_CLEAR_LIB (run_inits calls process_start) of
          None \<Rightarrow> []
        | Some kept \<Rightarrow> [lib_name kept])"
proof -
  have "loaded_agrees (run_inits calls process_start)"
    by (rule run_inits_loaded_agrees) (simp add: loaded_agrees_def process_start_def)
  then have kept: "loaded (run_inits calls process_start) =
       (case COLD_CLEAR_LIB (run_inits calls process_start) of
          None \<Rightarrow> []
        | Some kept \<Rightarrow> [lib_name kept])"
    by (simp add: loaded_agrees_def)
  then have "length (loaded (run_inits calls process_start)) \<le> 1"
    by (simp split: option.splits)
  with kept show ?thesis
    by (simp add: init_when_loaded run_inits_when_loaded init_twice_is_init)
qed

section \<open>Releasing the handle once\<close>

lemma destroy_count_ffi:
  "destroy_count (ffi c e w) = destroy_count w + (if is_destroy c then 1 else 0)"
  by (simp add: destroy_count_def ffi_def)

lemma releases_due_call_method: "releases_due (call_method l c hw) = releases_due hw"
proof (cases hw)
  case (Pair self w)
  then show ?thesis
    by (cases c)
       (auto simp: releases_due_def terminate_def exit_def enter_def reset_def add_next_piece_def
          request_next_move_def poll_next_move_def block_next_move_def next_move_fn_def Let_def
          destroy_count_ffi split: sum.splits option.splits)
qed

lemma releases_due_call_methods: "releases_due (call_methods l cs hw) = releases_due hw"
  by (induction cs arbitrary: hw) (simp_all add: releases_due_call_method)

text \<open>
  C3. \<^verbatim>\<open>terminate\<close> is idempotent. A second \<^verbatim>\<open>terminate\<close> right after a first leaves the
  handle, the engine and the log of foreign calls as the first left them; after the first
  the pointer of the handle is \<^verbatim>\<open>None\<close>; one call of \<^verbatim>\<open>terminate\<close> releases at most once;
  and over the whole life of a handle, from its construction through any calls of its
  methods, \<^verbatim>\<open>cc_destroy_async\<close> is called at most once. No call of \<^verbatim>\<open>terminate\<close> raises.
\<close>

theorem terminate_idempotent:
  "terminate l (fst (terminate l self w)) (snd (terminate l self w)) = terminate l self w
   \<and> handle (fst (terminate l self w)) = None
   \<and> destroy_count (snd (terminate l self w)) \<le> destroy_count w + 1
   \<and> destroy_count (snd (call_methods l calls (CCHandle_init l options weights w)))
       \<le> destroy_count w + 1"
proof -
  have "releases_due (call_methods l calls (CCHandle_init l options weights w)) = destroy_count w + 1"
    by (simp add: releases_due_call_methods)
       (simp add: releases_due_def CCHandle_init_def destroy_count_ffi split: prod.splits)
  then have "destroy_count (snd (call_methods l calls (CCHandle_init l options weights w)))
      \<le> destroy_count w + 1"
    by (simp add: releases_due_def)
  then show ?thesis
    by (simp add: terminate_def destroy_count_ffi)
qed

section \<open>Polling and blocking\<close>

lemma length_plan_after: "length (plan_after plan plan_ptr written) = length plan"
  by (cases plan_ptr) (auto simp: plan_after_def)

lemma next_move_fn_nonneg:
  assumes "0 \<le> n"
  shows "next_move_fn fn self n w =
     (case snd fn (as_pointer (handle self)) CCMove_new (plan_pointer n) (word_of_int n) (engine w) of
        None \<Rightarrow>
          (Never_returns,
           ffi (Call_next_move (fst fn) (as_pointer (handle self)) (plan_pointer n) (word_of_int n))
             (engine w) w)
      | Some (r, e') \<Rightarrow>
          (Returns (sint (status r), move_out r,
                    take (unat (plan_length_out r))
                      (plan_after (replicate (nat n) CCPlanPlacement_new) (plan_pointer n) (plan_out r))),
           ffi (Call_next_move (fst fn) (as_pointer (handle self)) (plan_pointer n) (word_of_int n))
             e' w))"
  unfolding next_move_fn_def Let_def plan_pointer_def using assms by simp

lemma next_move_fn_neg: "n < 0 \<Longrightarrow> next_move_fn fn self n w = (Raises ValueError, w)"
  by (simp add: next_move_fn_def)

lemma next_move_fn_plan_bound:
  assumes "0 \<le> n"
  shows "(\<exists>st mv plan. fst (next_move_fn fn self n w) = Returns (st, mv, plan) \<and> length plan \<le> nat n)
       \<or> fst (next_move_fn fn self n w) = Never_returns"
proof (cases "snd fn (as_pointer (handle self)) CCMove_new (plan_pointer n) (word_of_int n) (engine w)")
  case None
  then show ?thesis by (simp add: next_move_fn_nonneg [OF assms])
next
  case (Some answer)
  then show ?thesis
    by (cases answer) (simp add: next_move_fn_nonneg [OF assms] length_plan_after)
qed

text \<open>
  C4. For a capacity that is not negative, whatever the engine stores through the buffers
  and the length pointer, a call of \<^verbatim>\<open>poll_next_move\<close> or \<^verbatim>\<open>block_next_move\<close> that comes
  back returns a triple whose plan has at most \<open>plan_length\<close> elements. (The call does not
  raise; it fails to come back only where the engine does.)
\<close>

theorem plan_length_le_capacity:
  assumes "0 \<le> plan_length"
  shows "((\<exists>st mv plan. fst (poll_next_move l self plan_length w) = Returns (st, mv, plan)
             \<and> length plan \<le> nat plan_length)
          \<or> fst (poll_next_move l self plan_length w) = Never_returns)
       \<and> ((\<exists>st mv plan. fst (block_next_move l self plan_length w) = Returns (st, mv, plan)
             \<and> length plan \<le> nat plan_length)
          \<or> fst (block_next_move l self plan_length w) = Never_returns)"
  unfolding poll_next_move_def block_next_move_def
  using next_move_fn_plan_bound [OF assms] by blast

theorem plan_length_le_capacity_witness:
  "(0::int) \<le> 2
   \<and> (\<exists>st mv plan.
         fst (poll_next_move spec_engine example_handle 2 (example_world (Resolved example_move example_plan)))
           = Returns (st, mv, plan) \<and> length plan \<le> 2)"
proof -
  have h: "(0::int) \<le> 2" by simp
  have "fst (poll_next_move spec_engine example_handle 2 (example_world (Resolved example_move example_plan)))
      \<noteq> Never_returns"
    by (simp add: poll_next_move_def next_move_fn_def spec_engine_def spec_poll_def example_world_def
        Let_def)
  with plan_length_le_capacity [OF h, of spec_engine example_handle
      "example_world (Resolved example_move example_plan)"]
  show ?thesis by simp
qed

text \<open>
  C9. With the default capacity 0 both methods pass a null plan pointer to the engine and
  return the empty plan, whatever status and move the engine answers with.
\<close>

theorem zero_capacity_null_plan:
  "poll_next_move l self default_plan_length w =
     (case cc_poll_next_move l (as_pointer (handle self)) CCMove_new None 0 (engine w) of
        None \<Rightarrow>
          (Never_returns,
           ffi (Call_next_move ''cc_poll_next_move'' (as_pointer (handle self)) None 0) (engine w) w)
      | Some (r, e') \<Rightarrow>
          (Returns (sint (status r), move_out r, []),
           ffi (Call_next_move ''cc_poll_next_move'' (as_pointer (handle self)) None 0) e' w))
   \<and> block_next_move l self default_plan_length w =
     (case cc_block_next_move l (as_pointer (handle self)) CCMove_new None 0 (engine w) of
        None \<Rightarrow>
          (Never_returns,
           ffi (Call_next_move ''cc_block_next_move'' (as_pointer (handle self)) None 0) (engine w) w)
      | Some (r, e') \<Rightarrow>
          (Returns (sint (status r), move_out r, []),
           ffi (Call_next_move ''cc_block_next_move'' (as_pointer (handle self)) None 0) e' w))"
  by (simp add: poll_next_move_def block_next_move_def next_move_fn_def default_plan_length_def
      plan_after_def split: option.splits)

text \<open>
  C1. \<^verbatim>\<open>block_next_move\<close> and \<^verbatim>\<open>poll_next_move\<close> marshal in the same way: both pass the
  handle, a new move buffer, the plan pointer for the capacity and the capacity itself,
  and only the name of the entry point differs in what they call. So where the two entry
  points give the same answer to these arguments, the two methods have the same outcome
  (the same triple of status, move and plan) and leave the engine in the same state.
\<close>

theorem block_next_move_eq_poll_next_move:
  assumes "cc_block_next_move l (as_pointer (handle self)) CCMove_new (plan_pointer plan_length)
             (word_of_int plan_length) (engine w)
         = cc_poll_next_move l (as_pointer (handle self)) CCMove_new (plan_pointer plan_length)
             (word_of_int plan_length) (engine w)"
  shows "fst (block_next_move l self plan_length w) = fst (poll_next_move l self plan_length w)
       \<and> engine (snd (block_next_move l self plan_length w))
           = engine (snd (poll_next_move l self plan_length w))
       \<and> ffi_log (snd (poll_next_move l self plan_length w)) =
           (if plan_length < 0 then ffi_log w
            else ffi_log w @ [Call_next_move ''cc_poll_next_move'' (as_pointer (handle self))
                                (plan_pointer plan_length) (word_of_int plan_length)])
       \<and> ffi_log (snd (block_next_move l self plan_length w)) =
           (if plan_length < 0 then ffi_log w
            else ffi_log w @ [Call_next_move ''cc_block_next_move'' (as_pointer (handle self))
                                (plan_pointer plan_length) (word_of_int plan_length)])"
proof (cases "plan_length < 0")
  case True
  then show ?thesis
    by (simp add: poll_next_move_def block_next_move_def next_move_fn_neg)
next
  case False
  then have n: "0 \<le> plan_length" by simp
  show ?thesis
    using assms False
    by (simp add: poll_next_move_def block_next_move_def next_move_fn_nonneg [OF n] ffi_def
        split: option.splits)
qed

theorem block_next_move_eq_poll_next_move_witness:
  "fst (block_next_move spec_engine example_handle 2 (example_world (Resolved example_move example_plan)))
     = fst (poll_next_move spec_engine example_handle 2 (example_world (Resolved example_move example_plan)))"
proof -
  have "cc_block_next_move spec_engine (as_pointer (handle example_handle)) CCMove_new (plan_pointer 2)
             (word_of_int 2) (engine (example_world (Resolved example_move example_plan)))
         = cc_poll_next_move spec_engine (as_pointer (handle example_handle)) CCMove_new (plan_pointer 2)
             (word_of_int 2) (engine (example_world (Resolved example_move example_plan)))"
    by (simp add: spec_engine_def spec_block_def spec_poll_def example_world_def)
  from block_next_move_eq_poll_next_move [OF this] show ?thesis
    by simp
qed


section \<open>Marshalling the field\<close>

lemma store_row_enumerate:
  "k + y * 10 + length row \<le> length raw \<Longrightarrow>
   store_row y (enumerate k row) raw =
     Inr (take (k + y * 10) raw @ row @ drop (k + y * 10 + length row) raw)"
proof (induction row arbitrary: k raw)
  case Nil
  then show ?case by simp
next
  case (Cons c cs)
  let ?i = "k + y * 10"
  have i: "?i < length raw" using Cons.prems by simp
  have "store_row y (enumerate k (c # cs)) raw = store_row y (enumerate (Suc k) cs) (raw[?i := c])"
    using i by (simp add: array_set_def)
  also have "\<dots> = Inr (take (Suc k + y * 10) (raw[?i := c]) @ cs
                      @ drop (Suc k + y * 10 + length cs) (raw[?i := c]))"
    using Cons.prems by (intro Cons.IH) simp
  also have "take (Suc k + y * 10) (raw[?i := c]) = take ?i raw @ [c]"
    using i by (simp add: take_Suc_conv_app_nth)
  also have "drop (Suc k + y * 10 + length cs) (raw[?i := c]) = drop (?i + length (c # cs)) raw"
    by simp
  finally show ?case by simp
qed

lemma store_rows_enumerate:
  "\<forall>row \<in> set field. length row = 10 \<Longrightarrow> (k + length field) * 10 \<le> length raw \<Longrightarrow>
   store_rows (enumerate k field) raw =
     Inr (take (k * 10) raw @ concat field @ drop ((k + length field) * 10) raw)"
proof (induction field arbitrary: k raw)
  case Nil
  then show ?case by simp
next
  case (Cons r rs)
  have r: "length r = 10" using Cons.prems(1) by simp
  let ?raw' = "take (k * 10) raw @ r @ drop (k * 10 + 10) raw"
  have len: "length ?raw' = length raw" using Cons.prems(2) r by simp
  have "store_row k (enumerate 0 r) raw = Inr ?raw'"
    using store_row_enumerate [of 0 k r raw] Cons.prems(2) r by simp
  then have "store_rows (enumerate k (r # rs)) raw = store_rows (enumerate (Suc k) rs) ?raw'"
    by simp
  also have "\<dots> = Inr (take (Suc k * 10) ?raw' @ concat rs @ drop ((Suc k + length rs) * 10) ?raw')"
    using Cons.prems len by (intro Cons.IH) simp_all
  also have "take (Suc k * 10) ?raw' = take (k * 10) raw @ r"
    using Cons.prems(2) r by simp
  also have "drop ((Suc k + length rs) * 10) ?raw' = drop ((k + length (r # rs)) * 10) raw"
    using Cons.prems(2) r by (simp add: add.commute add.left_commute)
  finally show ?case by simp
qed

lemma marshal_field_concat:
  assumes "length field = 40" and "\<forall>row \<in> set field. length row = 10"
  shows "marshal_field field = Inr (concat field)"
  using store_rows_enumerate [OF assms(2), of 0 "replicate 400 False"] assms(1)
  by (simp add: marshal_field_def)

lemma concat_nth_rows:
  "\<forall>row \<in> set field. length row = n \<Longrightarrow> y < length field \<Longrightarrow> x < n \<Longrightarrow>
   concat field ! (x + n * y) = field ! y ! x"
proof (induction field arbitrary: y)
  case Nil
  then show ?case by simp
next
  case (Cons r rs)
  show ?case
  proof (cases y)
    case 0
    with Cons.prems show ?thesis by (simp add: nth_append)
  next
    case (Suc y')
    have "x + n * y = length r + (x + n * y')" using Cons.prems(1) Suc by simp
    then have "concat (r # rs) ! (x + n * y) = concat rs ! (x + n * y')"
      by (simp add: nth_append)
    with Cons Suc show ?thesis by simp
  qed
qed

lemma length_concat_rows:
  "\<forall>row \<in> set field. length row = n \<Longrightarrow> length (concat field) = n * length field"
  by (induction field) simp_all

text \<open>
  C5. For a field of 40 rows of 10 cells \<^verbatim>\<open>reset\<close> passes to \<^verbatim>\<open>cc_reset_async\<close> the 400
  cells row after row from the first row on, each row from its first cell on: the cell at
  row \<open>y\<close>, column \<open>x\<close> is the element \<open>x + 10 * y\<close> of the array, and the call returns.
\<close>

theorem reset_marshals_row_major:
  assumes "length field = 40" and "\<forall>row \<in> set field. length row = 10"
  shows "marshal_field field = Inr (concat field)
       \<and> length (concat field) = 400
       \<and> (\<forall>y < 40. \<forall>x < 10. concat field ! (x + 10 * y) = field ! y ! x)
       \<and> reset l self field b2b combo w =
           (Returns (),
            ffi (Call_reset_async (as_pointer (handle self)) (concat field) b2b (word_of_int combo))
              (cc_reset_async l (as_pointer (handle self)) (concat field) b2b (word_of_int combo)
                 (engine w)) w)"
  using marshal_field_concat [OF assms] concat_nth_rows [OF assms(2)]
    length_concat_rows [OF assms(2)] assms(1)
  by (simp add: reset_def)

theorem reset_marshals_row_major_witness:
  "length example_field = 40
   \<and> marshal_field example_field = Inr (concat example_field)
   \<and> concat example_field ! (0 + 10 * 7) = example_field ! 7 ! 0
   \<and> example_field ! 7 ! 0 = True
   \<and> fst (reset spec_engine example_handle example_field False 0 (example_world Idle)) = Returns ()"
proof -
  have h1: "length example_field = 40"
    by (simp add: example_field_def)
  have h2: "\<forall>row \<in> set example_field. length row = 10"
    by (simp add: example_field_def)
  have cell: "example_field ! 7 ! 0 = True"
    by (simp add: example_field_def)
  note marshalled =
    reset_marshals_row_major [OF h1 h2, of spec_engine example_handle False 0 "example_world Idle"]
  from marshalled have "\<forall>y < 40. \<forall>x < 10. concat example_field ! (x + 10 * y) = example_field ! y ! x"
    by blast
  moreover have "(7::nat) < 40" and "(0::nat) < 10"
    by simp_all
  ultimately have "concat example_field ! (0 + 10 * 7) = example_field ! 7 ! 0"
    by blast
  with marshalled h1 cell show ?thesis
    by simp
qed

section \<open>The dead state\<close>

lemma spec_entry_dead:
  assumes "is_dead w"
  shows "spec_poll a move pp c (engine w) = Some (no_move 2 move c, engine w)"
    and "spec_block a move pp c (engine w) = Some (no_move 2 move c, engine w)"
  using assms by (auto simp: is_dead_def spec_poll_def spec_block_def split: option.splits)

lemma spec_entry_status_2:
  assumes "spec_poll a move pp c e = Some (r, e') \<or> spec_block a move pp c e = Some (r, e')"
      and "sint (status r) = 2"
  shows "e' = e \<and> (\<exists>g. e = Some g \<and> request g = Dead)"
  using assms
  by (auto simp: spec_poll_def spec_block_def no_move_def provide_def
           split: option.splits request_state.splits)

lemma next_move_call_spec:
  "next_move_call spec_engine blocking self n w =
     next_move_fn (if blocking then (''cc_block_next_move'', spec_block)
                   else (''cc_poll_next_move'', spec_poll)) self n w"
  by (simp add: next_move_call_def poll_next_move_def block_next_move_def spec_engine_def)

lemma dead_after_DEAD:
  assumes "fst (next_move_call spec_engine blocking self n w) = Returns (2, mv, plan)"
  shows "is_dead (snd (next_move_call spec_engine blocking self n w))"
proof (cases "n < 0")
  case True
  with assms show ?thesis by (simp add: next_move_call_spec next_move_fn_neg)
next
  case False
  then have n: "0 \<le> n" by simp
  let ?fn = "if blocking then (''cc_block_next_move'', spec_block)
             else (''cc_poll_next_move'', spec_poll)"
  show ?thesis
  proof (cases "snd ?fn (as_pointer (handle self)) CCMove_new (plan_pointer n) (word_of_int n) (engine w)")
    case None
    with assms n show ?thesis
      by (simp add: next_move_call_spec next_move_fn_nonneg)
  next
    case (Some answer)
    obtain r e' where answer: "answer = (r, e')" by (cases answer)
    from assms n Some answer have st: "sint (status r) = 2"
      by (simp add: next_move_call_spec next_move_fn_nonneg)
    from Some answer
    have "spec_poll (as_pointer (handle self)) CCMove_new (plan_pointer n) (word_of_int n) (engine w)
            = Some (r, e')
        \<or> spec_block (as_pointer (handle self)) CCMove_new (plan_pointer n) (word_of_int n) (engine w)
            = Some (r, e')"
      by (simp split: if_splits)
    from spec_entry_status_2 [OF this st] have "e' = engine w" and "is_dead w"
      by (auto simp: is_dead_def)
    with Some answer n show ?thesis
      by (simp add: next_move_call_spec next_move_fn_nonneg is_dead_def ffi_def)
  qed
qed

lemma DEAD_when_dead:
  assumes "is_dead w" and "0 \<le> n"
  shows "\<exists>mv plan. fst (next_move_call spec_engine blocking self n w) = Returns (2, mv, plan)"
  using assms spec_entry_dead [OF assms(1)]
  by (simp add: next_move_call_spec next_move_fn_nonneg no_move_def)

lemma is_dead_next_move:
  assumes "is_dead w"
  shows "is_dead (snd (next_move_call spec_engine blocking self n w))"
proof (cases "n < 0")
  case True
  with assms show ?thesis by (simp add: next_move_call_spec next_move_fn_neg)
next
  case False
  with assms spec_entry_dead [OF assms] show ?thesis
    by (simp add: next_move_call_spec next_move_fn_nonneg is_dead_def ffi_def)
qed

lemma is_dead_step:
  assumes "is_dead w" and "keeps_position ev"
  shows "is_dead (snd (step ev (self, w)))"
proof (cases ev)
  case (Host c)
  show ?thesis
  proof (cases c)
    case (Poll_next_move n)
    with Host is_dead_next_move [OF assms(1), of False self n] show ?thesis
      by (simp add: next_move_call_def)
  next
    case (Block_next_move n)
    with Host is_dead_next_move [OF assms(1), of True self n] show ?thesis
      by (simp add: next_move_call_def)
  qed (use assms Host in \<open>auto simp: is_dead_def enter_def add_next_piece_def request_next_move_def
          ffi_def spec_engine_def spec_add_next_piece_def spec_request_def split: option.splits\<close>)
next
  case (Worker x)
  with assms show ?thesis
    by (cases x) (auto simp: is_dead_def split: option.splits)
qed

lemma is_dead_run:
  assumes "is_dead (snd hw)" and "list_all keeps_position evs"
  shows "is_dead (snd (run evs hw))"
  using assms
proof (induction evs arbitrary: hw)
  case Nil
  then show ?case by simp
next
  case (Cons ev evs)
  obtain self w where hw: "hw = (self, w)" by (cases hw)
  with Cons.prems have "is_dead (snd (step ev hw))"
    using is_dead_step [of w ev self] by simp
  with Cons show ?case by simp
qed

text \<open>
  C2. Against the engine of the specification: once \<^verbatim>\<open>poll_next_move\<close> or
  \<^verbatim>\<open>block_next_move\<close> has returned DEAD on a handle, then after any further events that
  keep the handle live and do not reset it (calls of \<^verbatim>\<open>add_next_piece\<close>,
  \<^verbatim>\<open>request_next_move\<close>, \<^verbatim>\<open>poll_next_move\<close>, \<^verbatim>\<open>block_next_move\<close>, and whatever the worker
  concludes in between), every call of \<^verbatim>\<open>poll_next_move\<close> or \<^verbatim>\<open>block_next_move\<close> with a
  capacity that is not negative returns, with status DEAD, and so never with
  MOVE\_PROVIDED.
\<close>

theorem dead_is_terminal:
  assumes "fst (next_move_call spec_engine blocking self n w)
             = Returns (CCBotPollStatus_value DEAD, mv, plan)"
      and "list_all keeps_position evs"
      and "run evs (self, snd (next_move_call spec_engine blocking self n w)) = (self', w')"
      and "0 \<le> n'"
  shows "(\<exists>mv' plan'. fst (next_move_call spec_engine blocking' self' n' w')
             = Returns (CCBotPollStatus_value DEAD, mv', plan'))
       \<and> (\<forall>mv' plan'. fst (next_move_call spec_engine blocking' self' n' w')
             \<noteq> Returns (CCBotPollStatus_value MOVE_PROVIDED, mv', plan'))"
proof -
  from assms(1) have "is_dead (snd (next_move_call spec_engine blocking self n w))"
    by (intro dead_after_DEAD) simp
  then have "is_dead (snd (run evs (self, snd (next_move_call spec_engine blocking self n w))))"
    using assms(2) by (intro is_dead_run) simp_all
  with assms(3) have "is_dead w'" by simp
  from DEAD_when_dead [OF this assms(4), of blocking' self'] show ?thesis
    by auto
qed

theorem dead_is_terminal_witness:
  "fst (next_move_call spec_engine False example_handle 0
          (example_world Requested\<lparr>engine := worker_step Worker_dies (engine (example_world Requested))\<rparr>))
     = Returns (CCBotPollStatus_value DEAD, CCMove_new, [])
   \<and> (\<exists>mv' plan'.
        fst (next_move_call spec_engine True
               (fst (run [Host (Request_next_move 0), Worker (Worker_provides example_move example_plan),
                          Host (Poll_next_move 1)]
                      (example_handle,
                       snd (next_move_call spec_engine False example_handle 0
                              (example_world Requested
                                 \<lparr>engine := worker_step Worker_dies (engine (example_world Requested))\<rparr>)))))
               2
               (snd (run [Host (Request_next_move 0), Worker (Worker_provides example_move example_plan),
                          Host (Poll_next_move 1)]
                      (example_handle,
                       snd (next_move_call spec_engine False example_handle 0
                              (example_world Requested
                                 \<lparr>engine := worker_step Worker_dies (engine (example_world Requested))\<rparr>))))))
          = Returns (CCBotPollStatus_value DEAD, mv', plan'))"
proof -
  let ?w = "example_world Requested\<lparr>engine := worker_step Worker_dies (engine (example_world Requested))\<rparr>"
  let ?evs = "[Host (Request_next_move 0), Worker (Worker_provides example_move example_plan),
               Host (Poll_next_move 1)]"
  let ?after = "run ?evs (example_handle, snd (next_move_call spec_engine False example_handle 0 ?w))"
  have h1: "fst (next_move_call spec_engine False example_handle 0 ?w)
      = Returns (CCBotPollStatus_value DEAD, CCMove_new, [])"
    by (simp add: next_move_call_def poll_next_move_def next_move_fn_def spec_engine_def spec_poll_def
        no_move_def plan_after_def example_world_def Let_def)
  have h2: "list_all keeps_position ?evs"
    by simp
  have h3: "?after = (fst ?after, snd ?after)"
    by simp
  have h4: "(0::int) \<le> 2"
    by simp
  from dead_is_terminal [OF h1 h2 h3 h4, of True] h1 show ?thesis
    by blast
qed


end
